theory Spec2Isabelle
  imports Main "HOL-Library.AList" "HOL-Library.Sublist"
begin

section \<open>Request bodies and headers of the subnets package\<close>

text \<open>
  A request body is a Go \<^verbatim>\<open>map[string]any\<close> obtained by marshalling an options struct
  to JSON and reading it back. The values such a map can hold are modelled by \<open>json\<close>;
  an object is an association list with distinct keys, looked up with \<open>map_of\<close> and
  written with \<open>AList.update\<close>.
\<close>

datatype json =
    JNull
  | JString string
  | JNumber int
  | JBool bool
  | JArray "json list"
  | JObject "(string \<times> json) list"

datatype error =
    ErrMissingInput string
  | ErrReauthWithToken
  | ErrUnrecognizedVersion string
  | ErrVersionConflict
  | ErrNoSupportedVersion
  | ErrOther string

record AllocationPool =
  Start :: string
  End :: string

record HostRoute =
  DestinationCIDR :: string
  NextHop :: string

record CreateOpts =
  c_NetworkID :: string
  c_CIDR :: string
  c_Name :: string
  c_Description :: string
  c_TenantID :: string
  c_ProjectID :: string
  c_AllocationPools :: "AllocationPool list"
  c_GatewayIP :: "string option"
  c_IPVersion :: int
  c_EnableDHCP :: "bool option"
  c_DNSNameservers :: "string list"
  c_DNSPublishFixedIP :: "bool option"
  c_ServiceTypes :: "string list"
  c_HostRoutes :: "HostRoute list"
  c_IPv6AddressMode :: string
  c_IPv6RAMode :: string
  c_SubnetPoolID :: string
  c_Prefixlen :: int
  c_SegmentID :: string

record UpdateOpts =
  u_Name :: "string option"
  u_Description :: "string option"
  u_AllocationPools :: "AllocationPool list"
  u_GatewayIP :: "string option"
  u_DNSNameservers :: "string list option"
  u_DNSPublishFixedIP :: "bool option"
  u_ServiceTypes :: "string list option"
  u_HostRoutes :: "HostRoute list option"
  u_EnableDHCP :: "bool option"
  u_RevisionNumber :: "int option"
  u_SegmentID :: "string option"

subsection \<open>The JSON image of a field, by its tag\<close>

text \<open>
  With \<^verbatim>\<open>omitempty\<close> a field is left out when it is the empty string, zero, a nil
  pointer or an empty slice; a non-nil pointer is kept whatever it points to.
\<close>

definition omit_string :: "string \<Rightarrow> string \<Rightarrow> (string \<times> json) list" where
  "omit_string k s = (if s = [] then [] else [(k, JString s)])"

definition omit_int :: "string \<Rightarrow> int \<Rightarrow> (string \<times> json) list" where
  "omit_int k n = (if n = 0 then [] else [(k, JNumber n)])"

definition omit_ptr :: "string \<Rightarrow> ('a \<Rightarrow> json) \<Rightarrow> 'a option \<Rightarrow> (string \<times> json) list" where
  "omit_ptr k enc p = (case p of None \<Rightarrow> [] | Some v \<Rightarrow> [(k, enc v)])"

definition omit_slice :: "string \<Rightarrow> ('a \<Rightarrow> json) \<Rightarrow> 'a list \<Rightarrow> (string \<times> json) list" where
  "omit_slice k enc xs = (if xs = [] then [] else [(k, JArray (map enc xs))])"

definition json_AllocationPool :: "AllocationPool \<Rightarrow> json" where
  "json_AllocationPool a = JObject [(''start'', JString (Start a)), (''end'', JString (End a))]"

definition json_HostRoute :: "HostRoute \<Rightarrow> json" where
  "json_HostRoute h =
     JObject [(''destination'', JString (DestinationCIDR h)), (''nexthop'', JString (NextHop h))]"

definition json_strings :: "string list \<Rightarrow> json" where
  "json_strings xs = JArray (map JString xs)"

definition json_HostRoutes :: "HostRoute list \<Rightarrow> json" where
  "json_HostRoutes xs = JArray (map json_HostRoute xs)"

definition CreateOpts_fields :: "CreateOpts \<Rightarrow> (string \<times> json) list" where
  "CreateOpts_fields opts =
     [(''network_id'', JString (c_NetworkID opts))]
     @ omit_string ''cidr'' (c_CIDR opts)
     @ omit_string ''name'' (c_Name opts)
     @ omit_string ''description'' (c_Description opts)
     @ omit_string ''tenant_id'' (c_TenantID opts)
     @ omit_string ''project_id'' (c_ProjectID opts)
     @ omit_slice ''allocation_pools'' json_AllocationPool (c_AllocationPools opts)
     @ omit_ptr ''gateway_ip'' JString (c_GatewayIP opts)
     @ omit_int ''ip_version'' (c_IPVersion opts)
     @ omit_ptr ''enable_dhcp'' JBool (c_EnableDHCP opts)
     @ omit_slice ''dns_nameservers'' JString (c_DNSNameservers opts)
     @ omit_ptr ''dns_publish_fixed_ip'' JBool (c_DNSPublishFixedIP opts)
     @ omit_slice ''service_types'' JString (c_ServiceTypes opts)
     @ omit_slice ''host_routes'' json_HostRoute (c_HostRoutes opts)
     @ omit_string ''ipv6_address_mode'' (c_IPv6AddressMode opts)
     @ omit_string ''ipv6_ra_mode'' (c_IPv6RAMode opts)
     @ omit_string ''subnetpool_id'' (c_SubnetPoolID opts)
     @ omit_int ''prefixlen'' (c_Prefixlen opts)
     @ omit_string ''segment_id'' (c_SegmentID opts)"

definition UpdateOpts_fields :: "UpdateOpts \<Rightarrow> (string \<times> json) list" where
  "UpdateOpts_fields opts =
     omit_ptr ''name'' JString (u_Name opts)
     @ omit_ptr ''description'' JString (u_Description opts)
     @ omit_slice ''allocation_pools'' json_AllocationPool (u_AllocationPools opts)
     @ omit_ptr ''gateway_ip'' JString (u_GatewayIP opts)
     @ omit_ptr ''dns_nameservers'' json_strings (u_DNSNameservers opts)
     @ omit_ptr ''dns_publish_fixed_ip'' JBool (u_DNSPublishFixedIP opts)
     @ omit_ptr ''service_types'' json_strings (u_ServiceTypes opts)
     @ omit_ptr ''host_routes'' json_HostRoutes (u_HostRoutes opts)
     @ omit_ptr ''enable_dhcp'' JBool (u_EnableDHCP opts)
     @ omit_ptr ''segment_id'' JString (u_SegmentID opts)"

text \<open>
  Modelled from the spec: \<^verbatim>\<open>gophercloud.BuildRequestBody\<close> is not among the sources. The
  spec describes request bodies as the mechanical mapping between a struct and its
  wire-level JSON fields; the mapping is read off the \<^verbatim>\<open>json\<close> and \<^verbatim>\<open>required\<close> tags of
  \<^verbatim>\<open>CreateOpts\<close> and \<^verbatim>\<open>UpdateOpts\<close> in requests.go, and the result is wrapped under
  the parent key. A required field that is empty is an error.
\<close>

definition BuildRequestBody_CreateOpts :: "CreateOpts \<Rightarrow> string \<Rightarrow> error + (string \<times> json) list" where
  "BuildRequestBody_CreateOpts opts parent =
     (if c_NetworkID opts = [] then Inl (ErrMissingInput ''NetworkID'')
      else Inr [(parent, JObject (CreateOpts_fields opts))])"

text \<open>
  Modelled from the spec: \<^verbatim>\<open>gophercloud.BuildRequestBody\<close> on an \<^verbatim>\<open>UpdateOpts\<close>, read off
  the struct's tags in the same way; no field of \<^verbatim>\<open>UpdateOpts\<close> is required.
\<close>

definition BuildRequestBody_UpdateOpts :: "UpdateOpts \<Rightarrow> string \<Rightarrow> error + (string \<times> json) list" where
  "BuildRequestBody_UpdateOpts opts parent = Inr [(parent, JObject (UpdateOpts_fields opts))]"

subsection \<open>ToSubnetCreateMap and ToSubnetUpdateMap\<close>

text \<open>
  \<^verbatim>\<open>if m := b["subnet"].(map[string]any); m["gateway_ip"] == "" { m["gateway_ip"] = nil }\<close>
  The type assertion panics on anything but a map; the lookup of an absent key yields
  nil, which is not equal to the empty string.
\<close>

datatype panic = NilPointerDereference | NilFunctionCall | FailedTypeAssertion

datatype 'a outcome = Panic panic | Returned 'a

definition gateway_rewrite :: "(string \<times> json) list \<Rightarrow> (string \<times> json) list outcome" where
  "gateway_rewrite b =
     (case map_of b ''subnet'' of
        Some (JObject m) \<Rightarrow>
          Returned (if map_of m ''gateway_ip'' = Some (JString [])
                    then AList.update ''subnet'' (JObject (AList.update ''gateway_ip'' JNull m)) b
                    else b)
      | _ \<Rightarrow> Panic FailedTypeAssertion)"

definition ToSubnetCreateMap :: "CreateOpts \<Rightarrow> (error + (string \<times> json) list) outcome" where
  "ToSubnetCreateMap opts =
     (case BuildRequestBody_CreateOpts opts ''subnet'' of
        Inl err \<Rightarrow> Returned (Inl err)
      | Inr b \<Rightarrow> (case gateway_rewrite b of Panic r \<Rightarrow> Panic r | Returned b' \<Rightarrow> Returned (Inr b')))"

definition ToSubnetUpdateMap :: "UpdateOpts \<Rightarrow> (error + (string \<times> json) list) outcome" where
  "ToSubnetUpdateMap opts =
     (case BuildRequestBody_UpdateOpts opts ''subnet'' of
        Inl err \<Rightarrow> Returned (Inl err)
      | Inr b \<Rightarrow> (case gateway_rewrite b of Panic r \<Rightarrow> Panic r | Returned b' \<Rightarrow> Returned (Inr b')))"

text \<open>The inner map stored under \<^verbatim>\<open>"subnet"\<close> and a key of it.\<close>

definition subnet_key :: "(string \<times> json) list \<Rightarrow> string \<Rightarrow> json option" where
  "subnet_key b k = (case map_of b ''subnet'' of Some (JObject m) \<Rightarrow> map_of m k | _ \<Rightarrow> None)"

subsection \<open>Update: the If-Match header\<close>

definition digit_char :: "nat \<Rightarrow> char" where
  "digit_char n = ''0123456789'' ! n"

fun FormatUint :: "nat \<Rightarrow> string" where
  "FormatUint n = (if n < 10 then [digit_char n] else FormatUint (n div 10) @ [digit_char (n mod 10)])"

declare FormatUint.simps [simp del]

definition FormatInt :: "int \<Rightarrow> string" where
  "FormatInt i = (if i < 0 then CHR ''-'' # FormatUint (nat (- i)) else FormatUint (nat i))"

text \<open>
  Modelled from the spec: \<^verbatim>\<open>gophercloud.BuildHeaders\<close> is not among the sources. The only
  field of \<^verbatim>\<open>UpdateOpts\<close> with an \<^verbatim>\<open>h\<close> tag is \<^verbatim>\<open>RevisionNumber *int `h:"If-Match"`\<close>;
  the spec's "If-Match with a revision-number-derived value" is the decimal rendering of
  the number when the pointer is set, and no header when it is nil.
\<close>

definition BuildHeaders_UpdateOpts :: "UpdateOpts \<Rightarrow> error + (string \<times> string) list" where
  "BuildHeaders_UpdateOpts opts =
     Inr (case u_RevisionNumber opts of None \<Rightarrow> [] | Some n \<Rightarrow> [(''If-Match'', FormatInt n)])"

record PutRequest =
  put_resource :: "string list"
  put_body :: "(string \<times> json) list"
  MoreHeaders :: "(string \<times> string) list"
  OkCodes :: "int list"

text \<open>
  \<^verbatim>\<open>Update\<close> up to the point where the request leaves: either an error is stored in the
  result and nothing is sent, or \<^verbatim>\<open>c.Put\<close> is called with the request returned here.
\<close>

definition Update :: "string \<Rightarrow> UpdateOpts \<Rightarrow> (error + PutRequest) outcome" where
  "Update ident opts =
     (case ToSubnetUpdateMap opts of
        Panic r \<Rightarrow> Panic r
      | Returned (Inl err) \<Rightarrow> Returned (Inl err)
      | Returned (Inr b) \<Rightarrow>
          (case BuildHeaders_UpdateOpts opts of
             Inl err \<Rightarrow> Returned (Inl err)
           | Inr h \<Rightarrow>
               Returned (Inr \<lparr>put_resource = [''subnets'', ident],
                              put_body = b,
                              MoreHeaders = map (\<lambda>(k, v). if k = ''If-Match''
                                                          then (k, ''revision_number='' @ v)
                                                          else (k, v)) h,
                              OkCodes = [200, 201]\<rparr>)))"

section \<open>Providers, service clients and authentication (client.go)\<close>

subsection \<open>Data\<close>

text \<open>
  The structs below belong to packages that are not among the sources; they carry the
  fields client.go reads or writes. \<^verbatim>\<open>gophercloud.AuthScope\<close> and \<^verbatim>\<open>tokens3.Scope\<close> have
  the same fields and share one record.
\<close>

record AuthScope =
  s_ProjectID :: string
  s_ProjectName :: string
  s_DomainID :: string
  s_DomainName :: string
  s_System :: bool
  s_TrustID :: string

definition zero_AuthScope :: AuthScope where
  "zero_AuthScope = \<lparr>s_ProjectID = [], s_ProjectName = [], s_DomainID = [], s_DomainName = [],
     s_System = False, s_TrustID = []\<rparr>"

record AuthOptions =
  ao_IdentityEndpoint :: string
  ao_Username :: string
  ao_Password :: string
  ao_Passcode :: string
  ao_AllowReauth :: bool
  ao_TokenID :: string
  ao_Scope :: "AuthScope option"

record Tokens3AuthOptions =
  t_IdentityEndpoint :: string
  t_Username :: string
  t_Password :: string
  t_Passcode :: string
  t_AllowReauth :: bool
  t_TokenID :: string
  t_Scope :: AuthScope

record Ec2AuthOptions =
  e_Access :: string
  e_Secret :: string
  e_AllowReauth :: bool

record OAuth1AuthOptions =
  o_OAuthConsumerKey :: string
  o_OAuthToken :: string
  o_AllowReauth :: bool

text \<open>
  A \<^verbatim>\<open>tokens3.AuthOptionsBuilder\<close> is an interface value. The type switches of
  \<^verbatim>\<open>v3auth\<close> tell four pointer types apart; every other implementation falls into their
  \<^verbatim>\<open>default\<close> branch and is represented by \<open>CustomBuilder\<close>, a name and what its
  \<^verbatim>\<open>CanReauth()\<close> answers.
\<close>

datatype auth_opts =
    GopherAuthOptions AuthOptions
  | TokensAuthOptions Tokens3AuthOptions
  | Ec2Options Ec2AuthOptions
  | OAuth1Options OAuth1AuthOptions
  | CustomBuilder string bool

text \<open>
  A \<^verbatim>\<open>tokens2.AuthOptionsBuilder\<close>: \<^verbatim>\<open>*gophercloud.AuthOptions\<close>, any other
  implementation, or the wrapper \<^verbatim>\<open>v2TokenNoReauth\<close> of client.go.
\<close>

datatype v2_opts =
    V2AuthOptions AuthOptions
  | V2CustomBuilder string bool
  | v2TokenNoReauth v2_opts

record EndpointOpts =
  eo_Type :: string
  eo_Name :: string
  eo_Region :: string
  eo_Availability :: string
  eo_Version :: int

definition zero_EndpointOpts :: EndpointOpts where
  "zero_EndpointOpts = \<lparr>eo_Type = [], eo_Name = [], eo_Region = [], eo_Availability = [],
     eo_Version = 0\<rparr>"

record CatalogEntry =
  ce_Type :: string
  ce_Region :: string
  ce_Interface :: string
  ce_URL :: string

type_synonym catalog = "CatalogEntry list"

text \<open>
  An authentication response (\<^verbatim>\<open>tokens2.CreateResult\<close>, \<^verbatim>\<open>tokens3.CreateResult\<close>,
  \<^verbatim>\<open>tokens3.GetResult\<close>): its \<^verbatim>\<open>Err\<close> field and what \<^verbatim>\<open>ExtractTokenID\<close> and
  \<^verbatim>\<open>ExtractServiceCatalog\<close> return on it.
\<close>

record auth_result =
  ar_Err :: "error option"
  ExtractTokenID :: "error + string"
  ExtractServiceCatalog :: "error + catalog"

datatype locator = V2Locator catalog | V3Locator catalog

text \<open>
  \<^verbatim>\<open>gophercloud.ProviderClient\<close>. The two function fields are closures built by
  \<^verbatim>\<open>v2auth\<close> and \<^verbatim>\<open>v3auth\<close>; they are kept as data: a locator remembers the catalog it
  searches, a reauthentication closure the variables it captured (the throw-away
  client, the endpoint, the options, the endpoint options). The captured throw-away
  client is a variable of the enclosing call and keeps its state between invocations.
\<close>

datatype provider =
  Provider (IdentityBase: string) (IdentityEndpoint: string) (TokenID: string)
    (authResult: "auth_result option") (ReauthFunc: "reauth option")
    (EndpointLocator: "locator option") (Throwaway: bool) (TokenLock: bool)
and reauth =
    ReauthV2 provider string v2_opts EndpointOpts
  | ReauthV3 provider string auth_opts EndpointOpts

fun set_TokenID :: "string \<Rightarrow> provider \<Rightarrow> provider" where
  "set_TokenID t (Provider b e _ a r l th lk) = Provider b e t a r l th lk"

fun set_authResult :: "auth_result option \<Rightarrow> provider \<Rightarrow> provider" where
  "set_authResult a (Provider b e t _ r l th lk) = Provider b e t a r l th lk"

fun set_ReauthFunc :: "reauth option \<Rightarrow> provider \<Rightarrow> provider" where
  "set_ReauthFunc r (Provider b e t a _ l th lk) = Provider b e t a r l th lk"

fun set_EndpointLocator :: "locator option \<Rightarrow> provider \<Rightarrow> provider" where
  "set_EndpointLocator l (Provider b e t a r _ th lk) = Provider b e t a r l th lk"

fun set_Throwaway :: "bool \<Rightarrow> provider \<Rightarrow> provider" where
  "set_Throwaway th (Provider b e t a r l _ lk) = Provider b e t a r l th lk"

fun set_TokenLock :: "bool \<Rightarrow> provider \<Rightarrow> provider" where
  "set_TokenLock lk (Provider b e t a r l th _) = Provider b e t a r l th lk"

text \<open>
  \<^verbatim>\<open>gophercloud.ServiceClient\<close>. \<open>sc_ProviderClient\<close> is the pointer to the provider
  (\<open>None\<close> is nil) with the state the provider had when the pointer was last written;
  the functions below thread the live provider state themselves.
\<close>

record ServiceClient =
  sc_ProviderClient :: "provider option"
  sc_Endpoint :: string
  sc_ResourceBase :: string
  sc_Type :: string
  sc_MoreHeaders :: "(string \<times> string) list"

definition zero_ServiceClient :: ServiceClient where
  "zero_ServiceClient = \<lparr>sc_ProviderClient = None, sc_Endpoint = [], sc_ResourceBase = [],
     sc_Type = [], sc_MoreHeaders = []\<rparr>"

record Version =
  v_ID :: string
  v_Priority :: int
  v_Suffix :: string

text \<open>
  What a call did besides returning: calls of the provider's endpoint locator and
  requests to the identity service, in order.
\<close>

datatype event =
    CallEndpointLocator EndpointOpts
  | CallChooseVersion
  | RequestTokens2Create string
  | RequestTokens3Create string
  | RequestTokens3Get string string
  | RequestEc2tokensCreate string
  | RequestOauth1Create string

fun is_request :: "event \<Rightarrow> bool" where
  "is_request (CallEndpointLocator _) = False"
| "is_request _ = True"


text \<open>
  The functions of other packages that client.go calls and whose bodies are not among
  the sources are parameters of the model: URL helpers of \<^verbatim>\<open>utils\<close> and \<^verbatim>\<open>gophercloud\<close>,
  the catalog searches behind the endpoint locators (the spec describes them as a scan
  of the cached catalog), the token requests, which answer with whatever the identity
  service sends, and version negotiation.
\<close>

record env =
  BaseEndpoint :: "string \<Rightarrow> error + string"
  NormalizeURL :: "string \<Rightarrow> string"
  V2Endpoint :: "catalog \<Rightarrow> EndpointOpts \<Rightarrow> error + string"
  V3Endpoint :: "catalog \<Rightarrow> EndpointOpts \<Rightarrow> error + string"
  tokens2_Create :: "ServiceClient \<Rightarrow> v2_opts \<Rightarrow> auth_result"
  tokens3_Create :: "ServiceClient \<Rightarrow> auth_opts \<Rightarrow> auth_result"
  tokens3_Get :: "ServiceClient \<Rightarrow> string \<Rightarrow> auth_result"
  ec2tokens_Create :: "ServiceClient \<Rightarrow> auth_opts \<Rightarrow> auth_result"
  oauth1_Create :: "ServiceClient \<Rightarrow> auth_opts \<Rightarrow> auth_result"
  ChooseVersion :: "provider \<Rightarrow> Version list \<Rightarrow> error + (Version \<times> string)"

subsection \<open>Methods of the absent packages\<close>

text \<open>
  Modelled from the spec: the \<^verbatim>\<open>CanReauth\<close> methods of the option types are not among the
  sources. The spec speaks of credentials that permit transparent reauthentication; the
  options permit it when \<^verbatim>\<open>AllowReauth\<close> is set and, for password options, no one-time
  passcode is used. A custom builder answers what it answers.
\<close>

fun CanReauth :: "auth_opts \<Rightarrow> bool" where
  "CanReauth (GopherAuthOptions v) = (ao_Passcode v = [] \<and> ao_AllowReauth v)"
| "CanReauth (TokensAuthOptions v) = (t_Passcode v = [] \<and> t_AllowReauth v)"
| "CanReauth (Ec2Options v) = e_AllowReauth v"
| "CanReauth (OAuth1Options v) = o_AllowReauth v"
| "CanReauth (CustomBuilder _ b) = b"

text \<open>
  Modelled from the spec: \<^verbatim>\<open>CanReauth\<close> of the v2 option types is not among the sources
  either and is read as above. The last equation is in client.go:
  \<^verbatim>\<open>func (v2TokenNoReauth) CanReauth() bool { return false }\<close>.
\<close>

fun CanReauthV2 :: "v2_opts \<Rightarrow> bool" where
  "CanReauthV2 (V2AuthOptions v) = (ao_Passcode v = [] \<and> ao_AllowReauth v)"
| "CanReauthV2 (V2CustomBuilder _ b) = b"
| "CanReauthV2 (v2TokenNoReauth _) = False"

text \<open>
  Modelled from the spec: \<^verbatim>\<open>ProviderClient.SetTokenAndAuthResult\<close> is not among the
  sources. The spec: "on success, store the returned token and catalog on the shared
  provider state". It stores the token of an authentication result together with the
  result (the empty token and no result for nil) and fails when the result yields no
  token.
\<close>

definition SetTokenAndAuthResult :: "provider \<Rightarrow> auth_result option \<Rightarrow> error + provider" where
  "SetTokenAndAuthResult client r =
     (case r of
        None \<Rightarrow> Inr (set_authResult None (set_TokenID [] client))
      | Some res \<Rightarrow>
          (case ExtractTokenID res of
             Inl err \<Rightarrow> Inl err
           | Inr tokenID \<Rightarrow> Inr (set_authResult (Some res) (set_TokenID tokenID client))))"

text \<open>
  Modelled from the spec: \<^verbatim>\<open>ProviderClient.SetToken\<close> is not among the sources. It stores
  a bare token, the "opaque token" of the spec's session state, without a result.
\<close>

definition SetToken :: "provider \<Rightarrow> string \<Rightarrow> provider" where
  "SetToken client t = set_authResult None (set_TokenID t client)"

text \<open>
  Modelled from the spec: \<^verbatim>\<open>ProviderClient.CopyTokenFrom\<close> is not among the sources. The
  spec: "copies the new token/catalog into the live shared provider".
\<close>

definition CopyTokenFrom :: "provider \<Rightarrow> provider \<Rightarrow> provider" where
  "CopyTokenFrom client other = set_authResult (authResult other) (set_TokenID (TokenID other) client)"

text \<open>
  Modelled from the spec: \<^verbatim>\<open>ProviderClient.SetThrowaway\<close> is not among the sources. It
  marks the "disposable copy of the provider".
\<close>

definition SetThrowaway :: "provider \<Rightarrow> bool \<Rightarrow> provider" where
  "SetThrowaway client v = set_Throwaway v client"

text \<open>
  Modelled from the spec: \<^verbatim>\<open>ProviderClient.UseTokenLock\<close> is not among the sources. It
  switches on the lock that serialises token reads and the reauthentication write; the
  model only records that it is on.
\<close>

definition UseTokenLock :: "provider \<Rightarrow> provider" where
  "UseTokenLock client = set_TokenLock True client"

text \<open>
  Modelled from the spec: \<^verbatim>\<open>EndpointOpts.ApplyDefaults\<close> is not among the sources. The
  spec: "apply default filtering when the caller under-specifies (e.g., default
  interface = public)"; the service type defaults to the one the constructor names.
\<close>

definition ApplyDefaults :: "string \<Rightarrow> EndpointOpts \<Rightarrow> EndpointOpts" where
  "ApplyDefaults t eo =
     (let eo1 = (if eo_Type eo = [] then eo\<lparr>eo_Type := t\<rparr> else eo)
      in if eo_Availability eo1 = [] then eo1\<lparr>eo_Availability := ''public''\<rparr> else eo1)"

text \<open>
  A call of the function field \<^verbatim>\<open>client.EndpointLocator\<close>; calling a nil function
  panics.
\<close>

definition call_EndpointLocator :: "env \<Rightarrow> provider \<Rightarrow> EndpointOpts \<Rightarrow> (error + string) outcome" where
  "call_EndpointLocator E client eo =
     (case EndpointLocator client of
        None \<Rightarrow> Panic NilFunctionCall
      | Some (V2Locator catalog) \<Rightarrow> Returned (V2Endpoint E catalog eo)
      | Some (V3Locator catalog) \<Rightarrow> Returned (V3Endpoint E catalog eo))"

subsection \<open>NewClient, NewIdentityV2, NewIdentityV3\<close>

definition v2 :: string where "v2 = ''v2.0''"

definition v3 :: string where "v3 = ''v3''"

definition NewClient :: "env \<Rightarrow> string \<Rightarrow> error + provider" where
  "NewClient E endpoint =
     (case BaseEndpoint E endpoint of
        Inl err \<Rightarrow> Inl err
      | Inr base \<Rightarrow>
          Inr (UseTokenLock (Provider (NormalizeURL E base) (NormalizeURL E endpoint) [] None None
                               None False False)))"

definition NewIdentityV2 ::
  "env \<Rightarrow> provider \<Rightarrow> EndpointOpts \<Rightarrow> (error + ServiceClient) outcome \<times> event list" where
  "NewIdentityV2 E client eo =
     (let clientType = ''identity'';
          mk = (\<lambda>endpoint. \<lparr>sc_ProviderClient = Some client, sc_Endpoint = endpoint,
                             sc_ResourceBase = [], sc_Type = clientType, sc_MoreHeaders = []\<rparr>)
      in if eo \<noteq> zero_EndpointOpts then
           (let eo1 = ApplyDefaults clientType eo
            in case call_EndpointLocator E client eo1 of
                 Panic r \<Rightarrow> (Panic r, [CallEndpointLocator eo1])
               | Returned (Inl err) \<Rightarrow> (Returned (Inl err), [CallEndpointLocator eo1])
               | Returned (Inr endpoint) \<Rightarrow> (Returned (Inr (mk endpoint)), [CallEndpointLocator eo1]))
         else (Returned (Inr (mk (IdentityBase client @ ''v2.0/''))), []))"

definition NewIdentityV3_finish :: "env \<Rightarrow> provider \<Rightarrow> string \<Rightarrow> error + ServiceClient" where
  "NewIdentityV3_finish E client endpoint =
     (case BaseEndpoint E endpoint of
        Inl err \<Rightarrow> Inl err
      | Inr base \<Rightarrow>
          Inr \<lparr>sc_ProviderClient = Some client, sc_Endpoint = NormalizeURL E base @ ''v3/'',
               sc_ResourceBase = [], sc_Type = ''identity'', sc_MoreHeaders = []\<rparr>)"

definition NewIdentityV3 ::
  "env \<Rightarrow> provider \<Rightarrow> EndpointOpts \<Rightarrow> (error + ServiceClient) outcome \<times> event list" where
  "NewIdentityV3 E client eo =
     (let clientType = ''identity''
      in if eo \<noteq> zero_EndpointOpts then
           (let eo1 = ApplyDefaults clientType eo
            in case call_EndpointLocator E client eo1 of
                 Panic r \<Rightarrow> (Panic r, [CallEndpointLocator eo1])
               | Returned (Inl err) \<Rightarrow> (Returned (Inl err), [CallEndpointLocator eo1])
               | Returned (Inr endpoint) \<Rightarrow>
                   (Returned (NewIdentityV3_finish E client endpoint), [CallEndpointLocator eo1]))
         else (Returned (NewIdentityV3_finish E client (IdentityBase client @ ''v3/'')), []))"

subsection \<open>v2auth and v3auth\<close>

type_synonym auth_run = "error option outcome \<times> provider \<times> event list"

text \<open>
  Lines 145 to 169 of \<^verbatim>\<open>v2auth\<close>: the throw-away client is a copy of the provider as it
  is after the token has been stored, and the closure captures it.
\<close>

definition v2auth_install ::
  "provider \<Rightarrow> string \<Rightarrow> v2_opts \<Rightarrow> EndpointOpts \<Rightarrow> catalog \<Rightarrow> event list \<Rightarrow> auth_run" where
  "v2auth_install client endpoint options eo catalog tr =
     (if CanReauthV2 options then
        (let tac = set_ReauthFunc None (SetThrowaway client True)
         in case SetTokenAndAuthResult tac None of
              Inl err \<Rightarrow> (Returned (Some err), client, tr)
            | Inr tac' \<Rightarrow>
                (Returned None,
                 set_EndpointLocator (Some (V2Locator catalog))
                   (set_ReauthFunc (Some (ReauthV2 tac' endpoint (v2TokenNoReauth options) eo)) client),
                 tr))
      else (Returned None, set_EndpointLocator (Some (V2Locator catalog)) client, tr))"

definition v2auth :: "env \<Rightarrow> provider \<Rightarrow> string \<Rightarrow> v2_opts \<Rightarrow> EndpointOpts \<Rightarrow> auth_run" where
  "v2auth E client endpoint options eo =
     (case NewIdentityV2 E client eo of
        (Panic r, tr) \<Rightarrow> (Panic r, client, tr)
      | (Returned (Inl err), tr) \<Rightarrow> (Returned (Some err), client, tr)
      | (Returned (Inr sc), tr) \<Rightarrow>
          (let v2Client = (if endpoint \<noteq> [] then sc\<lparr>sc_Endpoint := endpoint\<rparr> else sc);
               result = tokens2_Create E v2Client options;
               tr1 = tr @ [RequestTokens2Create (sc_Endpoint v2Client)]
           in case SetTokenAndAuthResult client (Some result) of
                Inl err \<Rightarrow> (Returned (Some err), client, tr1)
              | Inr client1 \<Rightarrow>
                  (case ExtractServiceCatalog result of
                     Inl err \<Rightarrow> (Returned (Some err), client1, tr1)
                   | Inr catalog \<Rightarrow> v2auth_install client1 endpoint options eo catalog tr1)))"

text \<open>
  The first type switch of \<^verbatim>\<open>v3auth\<close> (lines 190 to 200): the token ID and whether the
  token is passed through without a scope. Both variables keep their zero value for
  the option types the switch does not name.
\<close>

fun tokenID_of :: "auth_opts \<Rightarrow> string" where
  "tokenID_of (GopherAuthOptions v) = ao_TokenID v"
| "tokenID_of (TokensAuthOptions v) = t_TokenID v"
| "tokenID_of _ = []"

fun passthroughToken :: "auth_opts \<Rightarrow> bool" where
  "passthroughToken (GopherAuthOptions v) = (ao_Scope v = None \<or> ao_Scope v = Some zero_AuthScope)"
| "passthroughToken (TokensAuthOptions v) = (t_Scope v = zero_AuthScope)"
| "passthroughToken _ = False"

text \<open>The second type switch (lines 225 to 232) picks the request.\<close>

fun create_token :: "env \<Rightarrow> ServiceClient \<Rightarrow> auth_opts \<Rightarrow> auth_result \<times> event" where
  "create_token E sc (Ec2Options v) =
     (ec2tokens_Create E sc (Ec2Options v), RequestEc2tokensCreate (sc_Endpoint sc))"
| "create_token E sc (OAuth1Options v) =
     (oauth1_Create E sc (OAuth1Options v), RequestOauth1Create (sc_Endpoint sc))"
| "create_token E sc opts = (tokens3_Create E sc opts, RequestTokens3Create (sc_Endpoint sc))"

text \<open>The third type switch (lines 256 to 276) builds the options of the closure.\<close>

fun throwaway_opts :: "auth_opts \<Rightarrow> auth_opts" where
  "throwaway_opts (GopherAuthOptions ot) = GopherAuthOptions (ot\<lparr>ao_AllowReauth := False\<rparr>)"
| "throwaway_opts (TokensAuthOptions ot) = TokensAuthOptions (ot\<lparr>t_AllowReauth := False\<rparr>)"
| "throwaway_opts (Ec2Options ot) = Ec2Options (ot\<lparr>e_AllowReauth := False\<rparr>)"
| "throwaway_opts (OAuth1Options ot) = OAuth1Options (ot\<lparr>o_AllowReauth := False\<rparr>)"
| "throwaway_opts opts = opts"

text \<open>Lines 245 to 290 of \<^verbatim>\<open>v3auth\<close>.\<close>

definition v3auth_install ::
  "provider \<Rightarrow> string \<Rightarrow> auth_opts \<Rightarrow> EndpointOpts \<Rightarrow> catalog \<Rightarrow> event list \<Rightarrow> auth_run" where
  "v3auth_install client endpoint opts eo catalog tr =
     (if CanReauth opts then
        (let tac = set_ReauthFunc None (SetThrowaway client True)
         in case SetTokenAndAuthResult tac None of
              Inl err \<Rightarrow> (Returned (Some err), client, tr)
            | Inr tac' \<Rightarrow>
                (let tao = throwaway_opts opts
                 in (Returned None,
                     set_EndpointLocator (Some (V3Locator catalog))
                       (set_ReauthFunc (Some (ReauthV3 tac' endpoint tao eo)) client),
                     tr)))
      else (Returned None, set_EndpointLocator (Some (V3Locator catalog)) client, tr))"

text \<open>
  Lines 202 to 243: the pass-through branch sets the token on the provider through the
  service client (which embeds the provider pointer) before the lookup request.
\<close>

definition v3auth_passthrough ::
  "env \<Rightarrow> provider \<Rightarrow> ServiceClient \<Rightarrow> string \<Rightarrow> auth_opts \<Rightarrow> EndpointOpts \<Rightarrow> event list \<Rightarrow> auth_run" where
  "v3auth_passthrough E client v3Client endpoint opts eo tr =
     (if CanReauth opts then (Returned (Some ErrReauthWithToken), client, tr)
      else
        (let tokenID = tokenID_of opts;
             client1 = SetToken client tokenID;
             v3Client1 = v3Client\<lparr>sc_ProviderClient := Some client1\<rparr>;
             result = tokens3_Get E v3Client1 tokenID;
             tr1 = tr @ [RequestTokens3Get (sc_Endpoint v3Client1) tokenID]
         in case ar_Err result of
              Some err \<Rightarrow> (Returned (Some err), client1, tr1)
            | None \<Rightarrow>
                (case SetTokenAndAuthResult client1 (Some result) of
                   Inl err \<Rightarrow> (Returned (Some err), client1, tr1)
                 | Inr client2 \<Rightarrow>
                     (case ExtractServiceCatalog result of
                        Inl err \<Rightarrow> (Returned (Some err), client2, tr1)
                      | Inr catalog \<Rightarrow> v3auth_install client2 endpoint opts eo catalog tr1))))"

definition v3auth_create ::
  "env \<Rightarrow> provider \<Rightarrow> ServiceClient \<Rightarrow> string \<Rightarrow> auth_opts \<Rightarrow> EndpointOpts \<Rightarrow> event list \<Rightarrow> auth_run" where
  "v3auth_create E client v3Client endpoint opts eo tr =
     (let (result, ev) = create_token E v3Client opts;
          tr1 = tr @ [ev]
      in case SetTokenAndAuthResult client (Some result) of
           Inl err \<Rightarrow> (Returned (Some err), client, tr1)
         | Inr client1 \<Rightarrow>
             (case ExtractServiceCatalog result of
                Inl err \<Rightarrow> (Returned (Some err), client1, tr1)
              | Inr catalog \<Rightarrow> v3auth_install client1 endpoint opts eo catalog tr1))"

definition v3auth :: "env \<Rightarrow> provider \<Rightarrow> string \<Rightarrow> auth_opts \<Rightarrow> EndpointOpts \<Rightarrow> auth_run" where
  "v3auth E client endpoint opts eo =
     (case NewIdentityV3 E client eo of
        (Panic r, tr) \<Rightarrow> (Panic r, client, tr)
      | (Returned (Inl err), tr) \<Rightarrow> (Returned (Some err), client, tr)
      | (Returned (Inr sc), tr) \<Rightarrow>
          (let v3Client = (if endpoint \<noteq> [] then sc\<lparr>sc_Endpoint := endpoint\<rparr> else sc)
           in if tokenID_of opts \<noteq> [] \<and> passthroughToken opts
              then v3auth_passthrough E client v3Client endpoint opts eo tr
              else v3auth_create E client v3Client endpoint opts eo tr))"

subsection \<open>The reauthentication closure\<close>

text \<open>
  The authentication the closure performs on its throw-away client (lines 157 and 278).
\<close>

fun reauth_inner :: "env \<Rightarrow> reauth \<Rightarrow> auth_run" where
  "reauth_inner E (ReauthV2 tac endpoint options eo) = v2auth E tac endpoint options eo"
| "reauth_inner E (ReauthV3 tac endpoint tao eo) = v3auth E tac endpoint tao eo"

fun reauth_with_tac :: "reauth \<Rightarrow> provider \<Rightarrow> reauth" where
  "reauth_with_tac (ReauthV2 _ endpoint options eo) tac = ReauthV2 tac endpoint options eo"
| "reauth_with_tac (ReauthV3 _ endpoint tao eo) tac = ReauthV3 tac endpoint tao eo"

fun reauth_tac :: "reauth \<Rightarrow> provider" where
  "reauth_tac (ReauthV2 tac _ _ _) = tac"
| "reauth_tac (ReauthV3 tac _ _ _) = tac"

text \<open>
  An invocation of \<^verbatim>\<open>client.ReauthFunc(ctx)\<close> on the provider that holds it (lines 156 to
  163 and 277 to 284). The inner call leaves its changes in the captured throw-away
  client; the provider itself is written only by \<^verbatim>\<open>CopyTokenFrom\<close>.
\<close>

definition call_ReauthFunc :: "env \<Rightarrow> provider \<Rightarrow> auth_run" where
  "call_ReauthFunc E client =
     (case ReauthFunc client of
        None \<Rightarrow> (Panic NilFunctionCall, client, [])
      | Some f \<Rightarrow>
          (case reauth_inner E f of
             (Returned None, tac', tr) \<Rightarrow>
               (Returned None,
                CopyTokenFrom (set_ReauthFunc (Some (reauth_with_tac f tac')) client) tac', tr)
           | (res, tac', tr) \<Rightarrow>
               (res, set_ReauthFunc (Some (reauth_with_tac f tac')) client, tr)))"

subsection \<open>Authenticate\<close>

definition versions :: "Version list" where
  "versions = [\<lparr>v_ID = v2, v_Priority = 20, v_Suffix = ''/v2.0/''\<rparr>,
               \<lparr>v_ID = v3, v_Priority = 30, v_Suffix = ''/v3/''\<rparr>]"

fun after_events :: "event list \<Rightarrow> auth_run \<Rightarrow> auth_run" where
  "after_events tr0 (res, client, tr) = (res, client, tr0 @ tr)"

definition Authenticate :: "env \<Rightarrow> provider \<Rightarrow> AuthOptions \<Rightarrow> auth_run" where
  "Authenticate E client options =
     (case ChooseVersion E client versions of
        Inl err \<Rightarrow> (Returned (Some err), client, [CallChooseVersion])
      | Inr (chosen, endpoint) \<Rightarrow>
          if v_ID chosen = v2 then
            after_events [CallChooseVersion]
              (v2auth E client endpoint (V2AuthOptions options) zero_EndpointOpts)
          else if v_ID chosen = v3 then
            after_events [CallChooseVersion]
              (v3auth E client endpoint (GopherAuthOptions options) zero_EndpointOpts)
          else (Returned (Some (ErrUnrecognizedVersion (v_ID chosen))), client, [CallChooseVersion]))"

text \<open>
  Modelled from the spec: what probing the identity endpoint finds (spec 4.1): a failure, a URL that already
  names a version, or a versionless discovery document listing version IDs with their
  absolute endpoints.
\<close>

datatype probe =
    ProbeFailed error
  | AlreadyVersioned string
  | DiscoveryDocument "(string \<times> string) list"

text \<open>
  Modelled from the spec: "the highest-priority supported version"; of two entries of
  equal priority the earlier.
\<close>

fun highest_priority :: "Version list \<Rightarrow> Version option" where
  "highest_priority [] = None"
| "highest_priority (v # vs) =
     (case highest_priority vs of
        None \<Rightarrow> Some v
      | Some w \<Rightarrow> if v_Priority w > v_Priority v then Some w else Some v)"

text \<open>
  Modelled from the spec: \<^verbatim>\<open>utils.ChooseVersion\<close> is not among the sources. The spec
  (4.1): "probe it to determine whether it exposes a versionless discovery document or
  an already-versioned URL; choose the highest-priority supported version (v3 preferred
  over v2) and compute the absolute endpoint to use for token issuance. Failure:
  unsupported or undiscoverable version is a fatal configuration error". The probe is
  what the endpoint turns out to be: a URL that already names a version, or a discovery
  document listing version IDs with their absolute endpoints.
\<close>

definition ChooseVersion_spec ::
  "(provider \<Rightarrow> probe) \<Rightarrow> provider \<Rightarrow> Version list \<Rightarrow> error + (Version \<times> string)" where
  "ChooseVersion_spec probe_of client recognized =
     (case probe_of client of
        ProbeFailed err \<Rightarrow> Inl err
      | AlreadyVersioned ident \<Rightarrow>
          (case find (\<lambda>v. v_ID v = ident) recognized of
             None \<Rightarrow> Inl ErrNoSupportedVersion
           | Some v \<Rightarrow> Inr (v, IdentityEndpoint client))
      | DiscoveryDocument doc \<Rightarrow>
          (case highest_priority (filter (\<lambda>v. map_of doc (v_ID v) \<noteq> None) recognized) of
             None \<Rightarrow> Inl ErrNoSupportedVersion
           | Some v \<Rightarrow>
               (case map_of doc (v_ID v) of
                  None \<Rightarrow> Inl ErrNoSupportedVersion
                | Some href \<Rightarrow> Inr (v, href))))"

subsection \<open>Service client constructors\<close>

type_synonym client_run = "(ServiceClient option \<times> error option) outcome \<times> event list"

definition initClientOpts ::
  "env \<Rightarrow> provider \<Rightarrow> EndpointOpts \<Rightarrow> string \<Rightarrow> int \<Rightarrow> client_run" where
  "initClientOpts E client eo clientType version =
     (let sc = zero_ServiceClient;
          eo1 = ApplyDefaults clientType eo
      in if eo_Version eo1 \<noteq> 0 \<and> eo_Version eo1 \<noteq> version
         then (Returned (Some sc, Some ErrVersionConflict), [])
         else
           (let eo2 = eo1\<lparr>eo_Version := version\<rparr>
            in case call_EndpointLocator E client eo2 of
                 Panic r \<Rightarrow> (Panic r, [CallEndpointLocator eo2])
               | Returned (Inl err) \<Rightarrow> (Returned (Some sc, Some err), [CallEndpointLocator eo2])
               | Returned (Inr url) \<Rightarrow>
                   (Returned (Some (sc\<lparr>sc_ProviderClient := Some client, sc_Endpoint := url,
                                        sc_Type := clientType\<rparr>), None),
                    [CallEndpointLocator eo2])))"

text \<open>
  A wrapper that writes a field of the returned client before looking at the error
  dereferences the pointer: a nil pointer panics there.
\<close>

fun deref_update :: "(ServiceClient \<Rightarrow> ServiceClient) \<Rightarrow> client_run \<Rightarrow> client_run" where
  "deref_update f (Panic r, tr) = (Panic r, tr)"
| "deref_update f (Returned (None, err), tr) = (Panic NilPointerDereference, tr)"
| "deref_update f (Returned (Some sc, err), tr) = (Returned (Some (f sc), err), tr)"

definition HasSuffix :: "string \<Rightarrow> string \<Rightarrow> bool" where
  "HasSuffix s suf = suffix suf s"

definition TrimSuffix :: "string \<Rightarrow> string \<Rightarrow> string" where
  "TrimSuffix s suf = (if HasSuffix s suf then take (length s - length suf) s else s)"

text \<open>\<^verbatim>\<open>strings.ReplaceAll(s, old, "")\<close> for a non-empty \<open>old\<close>.\<close>

function ReplaceAll_empty :: "string \<Rightarrow> string \<Rightarrow> string" where
  "ReplaceAll_empty [] old = []"
| "ReplaceAll_empty (c # cs) old =
     (if old \<noteq> [] \<and> prefix old (c # cs)
      then ReplaceAll_empty (drop (length old) (c # cs)) old
      else c # ReplaceAll_empty cs old)"
  by pat_completeness auto
termination
  by (relation "measure (\<lambda>(s, old). length s)") (auto simp: neq_Nil_conv)

definition NewBareMetalV1 :: "env \<Rightarrow> provider \<Rightarrow> EndpointOpts \<Rightarrow> client_run" where
  "NewBareMetalV1 E client eo =
     deref_update
       (\<lambda>sc. if \<not> HasSuffix (TrimSuffix (sc_Endpoint sc) ''/'') ''v1''
             then sc\<lparr>sc_ResourceBase := sc_Endpoint sc @ ''v1/''\<rparr> else sc)
       (initClientOpts E client eo ''baremetal'' 1)"

definition NewBareMetalIntrospectionV1 :: "env \<Rightarrow> provider \<Rightarrow> EndpointOpts \<Rightarrow> client_run" where
  "NewBareMetalIntrospectionV1 E client eo = initClientOpts E client eo ''baremetal-introspection'' 1"

definition NewObjectStorageV1 :: "env \<Rightarrow> provider \<Rightarrow> EndpointOpts \<Rightarrow> client_run" where
  "NewObjectStorageV1 E client eo = initClientOpts E client eo ''object-store'' 1"

definition NewComputeV2 :: "env \<Rightarrow> provider \<Rightarrow> EndpointOpts \<Rightarrow> client_run" where
  "NewComputeV2 E client eo = initClientOpts E client eo ''compute'' 2"

definition NewNetworkV2 :: "env \<Rightarrow> provider \<Rightarrow> EndpointOpts \<Rightarrow> client_run" where
  "NewNetworkV2 E client eo =
     deref_update (\<lambda>sc. sc\<lparr>sc_ResourceBase := sc_Endpoint sc @ ''v2.0/''\<rparr>)
       (initClientOpts E client eo ''network'' 2)"

definition NewBlockStorageV1 :: "env \<Rightarrow> provider \<Rightarrow> EndpointOpts \<Rightarrow> client_run" where
  "NewBlockStorageV1 E client eo = initClientOpts E client eo ''volume'' 1"

definition NewBlockStorageV2 :: "env \<Rightarrow> provider \<Rightarrow> EndpointOpts \<Rightarrow> client_run" where
  "NewBlockStorageV2 E client eo = initClientOpts E client eo ''block-storage'' 2"

definition NewBlockStorageV3 :: "env \<Rightarrow> provider \<Rightarrow> EndpointOpts \<Rightarrow> client_run" where
  "NewBlockStorageV3 E client eo = initClientOpts E client eo ''block-storage'' 3"

definition NewSharedFileSystemV2 :: "env \<Rightarrow> provider \<Rightarrow> EndpointOpts \<Rightarrow> client_run" where
  "NewSharedFileSystemV2 E client eo = initClientOpts E client eo ''shared-file-system'' 2"

definition NewOrchestrationV1 :: "env \<Rightarrow> provider \<Rightarrow> EndpointOpts \<Rightarrow> client_run" where
  "NewOrchestrationV1 E client eo = initClientOpts E client eo ''orchestration'' 1"

definition NewDBV1 :: "env \<Rightarrow> provider \<Rightarrow> EndpointOpts \<Rightarrow> client_run" where
  "NewDBV1 E client eo = initClientOpts E client eo ''database'' 1"

definition NewDNSV2 :: "env \<Rightarrow> provider \<Rightarrow> EndpointOpts \<Rightarrow> client_run" where
  "NewDNSV2 E client eo =
     deref_update (\<lambda>sc. sc\<lparr>sc_ResourceBase := sc_Endpoint sc @ ''v2/''\<rparr>)
       (initClientOpts E client eo ''dns'' 2)"

definition NewImageV2 :: "env \<Rightarrow> provider \<Rightarrow> EndpointOpts \<Rightarrow> client_run" where
  "NewImageV2 E client eo =
     deref_update (\<lambda>sc. sc\<lparr>sc_ResourceBase := sc_Endpoint sc @ ''v2/''\<rparr>)
       (initClientOpts E client eo ''image'' 2)"

definition NewLoadBalancerV2 :: "env \<Rightarrow> provider \<Rightarrow> EndpointOpts \<Rightarrow> client_run" where
  "NewLoadBalancerV2 E client eo =
     deref_update
       (\<lambda>sc. sc\<lparr>sc_ResourceBase := ReplaceAll_empty (sc_Endpoint sc) ''v2.0/'' @ ''v2.0/''\<rparr>)
       (initClientOpts E client eo ''load-balancer'' 2)"

definition NewMessagingV2 :: "env \<Rightarrow> provider \<Rightarrow> string \<Rightarrow> EndpointOpts \<Rightarrow> client_run" where
  "NewMessagingV2 E client clientID eo =
     deref_update (\<lambda>sc. sc\<lparr>sc_MoreHeaders := [(''Client-ID'', clientID)]\<rparr>)
       (initClientOpts E client eo ''message'' 2)"

definition NewContainerV1 :: "env \<Rightarrow> provider \<Rightarrow> EndpointOpts \<Rightarrow> client_run" where
  "NewContainerV1 E client eo = initClientOpts E client eo ''application-container'' 1"

definition NewKeyManagerV1 :: "env \<Rightarrow> provider \<Rightarrow> EndpointOpts \<Rightarrow> client_run" where
  "NewKeyManagerV1 E client eo =
     deref_update (\<lambda>sc. sc\<lparr>sc_ResourceBase := sc_Endpoint sc @ ''v1/''\<rparr>)
       (initClientOpts E client eo ''key-manager'' 1)"

definition NewContainerInfraV1 :: "env \<Rightarrow> provider \<Rightarrow> EndpointOpts \<Rightarrow> client_run" where
  "NewContainerInfraV1 E client eo =
     initClientOpts E client eo ''container-infrastructure-management'' 1"

definition NewWorkflowV2 :: "env \<Rightarrow> provider \<Rightarrow> EndpointOpts \<Rightarrow> client_run" where
  "NewWorkflowV2 E client eo = initClientOpts E client eo ''workflow'' 2"

definition NewPlacementV1 :: "env \<Rightarrow> provider \<Rightarrow> EndpointOpts \<Rightarrow> client_run" where
  "NewPlacementV1 E client eo = initClientOpts E client eo ''placement'' 1"

text \<open>
  Every constructor of client.go that is built on \<^verbatim>\<open>initClientOpts\<close>, with the major
  version it fixes (\<^verbatim>\<open>NewMessagingV2\<close> for a given client ID).
\<close>

definition constructors ::
  "string \<Rightarrow> (int \<times> (env \<Rightarrow> provider \<Rightarrow> EndpointOpts \<Rightarrow> client_run)) list" where
  "constructors clientID =
     [(1, NewBareMetalV1), (1, NewBareMetalIntrospectionV1), (1, NewObjectStorageV1),
      (2, NewComputeV2), (2, NewNetworkV2), (1, NewBlockStorageV1), (2, NewBlockStorageV2),
      (3, NewBlockStorageV3), (2, NewSharedFileSystemV2), (1, NewOrchestrationV1),
      (1, NewDBV1), (2, NewDNSV2), (2, NewImageV2), (2, NewLoadBalancerV2),
      (2, \<lambda>E client. NewMessagingV2 E client clientID), (1, NewContainerV1),
      (1, NewKeyManagerV1), (1, NewContainerInfraV1), (2, NewWorkflowV2),
      (1, NewPlacementV1)]"

subsection \<open>Concrete inputs\<close>

definition example_result :: auth_result where
  "example_result = \<lparr>ar_Err = None, ExtractTokenID = Inr ''gAAAAABk'',
     ExtractServiceCatalog = Inr [\<lparr>ce_Type = ''network'', ce_Region = ''RegionOne'',
       ce_Interface = ''public'', ce_URL = ''http://cloud.example/network/''\<rparr>]\<rparr>"

definition example_probe :: "provider \<Rightarrow> probe" where
  "example_probe client = DiscoveryDocument [(''v2.0'', ''http://cloud.example/identity/v2.0/''),
     (''v3'', ''http://cloud.example/identity/v3/'')]"

definition example_env :: env where
  "example_env = \<lparr>BaseEndpoint = (\<lambda>u. Inr (TrimSuffix (TrimSuffix u ''v3/'') ''v2.0/'')),
     NormalizeURL = (\<lambda>u. if HasSuffix u ''/'' then u else u @ ''/''),
     V2Endpoint = (\<lambda>c eo. Inl (ErrOther ''no endpoint'')),
     V3Endpoint = (\<lambda>c eo. Inl (ErrOther ''no endpoint'')),
     tokens2_Create = (\<lambda>sc opts. example_result),
     tokens3_Create = (\<lambda>sc opts. example_result),
     tokens3_Get = (\<lambda>sc t. example_result),
     ec2tokens_Create = (\<lambda>sc opts. example_result),
     oauth1_Create = (\<lambda>sc opts. example_result),
     ChooseVersion = ChooseVersion_spec example_probe\<rparr>"

text \<open>An identity service that rejects the credentials.\<close>

definition failed_result :: auth_result where
  "failed_result = \<lparr>ar_Err = Some (ErrOther ''401 Unauthorized''),
     ExtractTokenID = Inl (ErrOther ''401 Unauthorized''),
     ExtractServiceCatalog = Inl (ErrOther ''401 Unauthorized'')\<rparr>"

definition rejecting_env :: env where
  "rejecting_env = example_env\<lparr>tokens3_Create := (\<lambda>sc opts. failed_result)\<rparr>"

definition example_provider :: provider where
  "example_provider = Provider ''http://cloud.example/identity/'' ''http://cloud.example/identity/''
     [] None None None False True"

text \<open>A token without a scope, with reauthentication allowed.\<close>

definition token_reauth_options :: AuthOptions where
  "token_reauth_options = \<lparr>ao_IdentityEndpoint = ''http://cloud.example/identity/'',
     ao_Username = [], ao_Password = [], ao_Passcode = [], ao_AllowReauth = True,
     ao_TokenID = ''gAAAAABj'', ao_Scope = None\<rparr>"

definition password_options :: AuthOptions where
  "password_options = \<lparr>ao_IdentityEndpoint = ''http://cloud.example/identity/'',
     ao_Username = ''demo'', ao_Password = ''secret'', ao_Passcode = [], ao_AllowReauth = True,
     ao_TokenID = [], ao_Scope = Some (zero_AuthScope\<lparr>s_ProjectName := ''demo'',
       s_DomainID := ''default''\<rparr>)\<rparr>"

text \<open>
  An options type of the caller's own, for instance a struct that embeds
  \<^verbatim>\<open>tokens3.AuthOptions\<close>, whose \<^verbatim>\<open>CanReauth()\<close> answers true.
\<close>

definition wrapped_options :: auth_opts where
  "wrapped_options = CustomBuilder ''WrappedAuthOptions'' True"

definition stale_provider :: provider where
  "stale_provider = Provider ''http://cloud.example/identity/'' ''http://cloud.example/identity/''
     ''gAAAAABi'' (Some example_result)
     (Some (ReauthV3 example_provider [] (GopherAuthOptions (password_options\<lparr>ao_AllowReauth := False\<rparr>))
        zero_EndpointOpts))
     (Some (V3Locator [])) False True"

definition region_opts :: EndpointOpts where
  "region_opts = zero_EndpointOpts\<lparr>eo_Region := ''RegionOne''\<rparr>"

definition conflicting_opts :: EndpointOpts where
  "conflicting_opts = zero_EndpointOpts\<lparr>eo_Region := ''RegionOne'', eo_Version := 3\<rparr>"


text \<open>What the claim expects under \<^verbatim>\<open>"gateway_ip"\<close> for a given \<^verbatim>\<open>GatewayIP\<close> pointer.\<close>

definition gateway_value :: "string option \<Rightarrow> json option" where
  "gateway_value g =
     (case g of None \<Rightarrow> None | Some s \<Rightarrow> Some (if s = [] then JNull else JString s))"

definition example_CreateOpts :: CreateOpts where
  "example_CreateOpts =
     \<lparr>c_NetworkID = ''d32019d3'', c_CIDR = ''192.168.199.0/24'', c_Name = [], c_Description = [],
      c_TenantID = [], c_ProjectID = [], c_AllocationPools = [], c_GatewayIP = Some [],
      c_IPVersion = 4, c_EnableDHCP = None, c_DNSNameservers = [], c_DNSPublishFixedIP = None,
      c_ServiceTypes = [], c_HostRoutes = [], c_IPv6AddressMode = [], c_IPv6RAMode = [],
      c_SubnetPoolID = [], c_Prefixlen = 0, c_SegmentID = []\<rparr>"

definition example_UpdateOpts :: UpdateOpts where
  "example_UpdateOpts =
     \<lparr>u_Name = Some ''my_new_subnet'', u_Description = None, u_AllocationPools = [],
      u_GatewayIP = Some [], u_DNSNameservers = None, u_DNSPublishFixedIP = None,
      u_ServiceTypes = None, u_HostRoutes = None, u_EnableDHCP = None,
      u_RevisionNumber = Some 42, u_SegmentID = None\<rparr>"

section \<open>Properties of the subnets requests\<close>

lemma gateway_rewrite_subnet:
  "gateway_rewrite [(''subnet'', JObject m)] =
     Returned [(''subnet'', JObject (if map_of m ''gateway_ip'' = Some (JString [])
                                     then AList.update ''gateway_ip'' JNull m else m))]"
  by (simp add: gateway_rewrite_def)

lemma subnet_key_rewritten:
  "subnet_key [(''subnet'', JObject (if map_of m ''gateway_ip'' = Some (JString [])
                                     then AList.update ''gateway_ip'' JNull m else m))] k =
     (if k = ''gateway_ip'' \<and> map_of m ''gateway_ip'' = Some (JString [])
      then Some JNull else map_of m k)"
  by (simp add: subnet_key_def update_conv')

lemma map_of_omit_string:
  "k \<noteq> k' \<Longrightarrow> map_of (omit_string k' s @ rest) k = map_of rest k"
  by (simp add: omit_string_def)

lemma map_of_omit_int:
  "k \<noteq> k' \<Longrightarrow> map_of (omit_int k' n @ rest) k = map_of rest k"
  by (simp add: omit_int_def)

lemma map_of_omit_slice:
  "k \<noteq> k' \<Longrightarrow> map_of (omit_slice k' enc xs @ rest) k = map_of rest k"
  by (simp add: omit_slice_def)

lemma map_of_omit_ptr:
  "k \<noteq> k' \<Longrightarrow> map_of (omit_ptr k' enc p @ rest) k = map_of rest k"
  by (simp add: omit_ptr_def split: option.splits)

lemma map_of_omit_ptr_hit:
  "map_of (omit_ptr k enc p @ rest) k =
     (case p of None \<Rightarrow> map_of rest k | Some v \<Rightarrow> Some (enc v))"
  by (simp add: omit_ptr_def split: option.splits)

lemma map_of_omit_string_last:
  "k \<noteq> k' \<Longrightarrow> map_of (omit_string k' s) k = None"
  by (simp add: omit_string_def)

lemma map_of_omit_ptr_last:
  "k \<noteq> k' \<Longrightarrow> map_of (omit_ptr k' enc p) k = None"
  by (simp add: omit_ptr_def split: option.splits)

lemmas map_of_omit = map_of_omit_string map_of_omit_int map_of_omit_slice map_of_omit_ptr
  map_of_omit_ptr_hit map_of_omit_string_last map_of_omit_ptr_last

lemma CreateOpts_fields_gateway:
  "map_of (CreateOpts_fields opts) ''gateway_ip'' = map_option JString (c_GatewayIP opts)"
  by (simp add: CreateOpts_fields_def map_of_omit del: map_of_append split: option.splits)

lemma UpdateOpts_fields_gateway:
  "map_of (UpdateOpts_fields opts) ''gateway_ip'' = map_option JString (u_GatewayIP opts)"
  by (simp add: UpdateOpts_fields_def map_of_omit del: map_of_append split: option.splits)

lemma ToSubnetCreateMap_body:
  "c_NetworkID opts \<noteq> [] \<Longrightarrow>
   ToSubnetCreateMap opts =
     Returned (Inr [(''subnet'',
       JObject (if map_of (CreateOpts_fields opts) ''gateway_ip'' = Some (JString [])
                then AList.update ''gateway_ip'' JNull (CreateOpts_fields opts)
                else CreateOpts_fields opts))])"
  by (simp add: ToSubnetCreateMap_def BuildRequestBody_CreateOpts_def gateway_rewrite_subnet)

lemma ToSubnetUpdateMap_body:
  "ToSubnetUpdateMap opts =
     Returned (Inr [(''subnet'',
       JObject (if map_of (UpdateOpts_fields opts) ''gateway_ip'' = Some (JString [])
                then AList.update ''gateway_ip'' JNull (UpdateOpts_fields opts)
                else UpdateOpts_fields opts))])"
  by (simp add: ToSubnetUpdateMap_def BuildRequestBody_UpdateOpts_def gateway_rewrite_subnet)

lemma gateway_value_fields:
  "map_of m ''gateway_ip'' = map_option JString g \<Longrightarrow>
   (if map_of m ''gateway_ip'' = Some (JString []) then Some JNull else map_of m ''gateway_ip'')
     = gateway_value g"
  by (cases g) (simp_all add: gateway_value_def)

lemma FormatInt_42: "FormatInt 42 = ''42''"
  by code_simp

text \<open>
  C8. \<^verbatim>\<open>Update\<close> on \<^verbatim>\<open>UpdateOpts\<close> always reaches the PUT request. When
  \<^verbatim>\<open>RevisionNumber\<close> points to \<open>n\<close>, the request carries exactly one extra header,
  \<^verbatim>\<open>If-Match\<close>, whose value is \<^verbatim>\<open>revision_number=\<close> followed by the decimal rendering of
  \<open>n\<close>; when \<^verbatim>\<open>RevisionNumber\<close> is nil the request carries no extra header at all.
\<close>

theorem Update_if_match_header:
  "\<exists>req. Update ident opts = Returned (Inr req) \<and>
     MoreHeaders req = (case u_RevisionNumber opts of
                          None \<Rightarrow> []
                        | Some n \<Rightarrow> [(''If-Match'', ''revision_number='' @ FormatInt n)])"
  by (simp add: Update_def ToSubnetUpdateMap_body BuildHeaders_UpdateOpts_def
      split: option.splits)

theorem Update_if_match_header_witness:
  "\<exists>req. Update ''08eae331'' example_UpdateOpts = Returned (Inr req) \<and>
     MoreHeaders req = [(''If-Match'', ''revision_number=42'')]"
  using Update_if_match_header [of "''08eae331''" example_UpdateOpts]
  by (simp add: example_UpdateOpts_def FormatInt_42)

text \<open>
  C9. Whenever the body of a \<^verbatim>\<open>CreateOpts\<close> is built (its required network ID is set),
  and always for an \<^verbatim>\<open>UpdateOpts\<close>, the map under \<^verbatim>\<open>"subnet"\<close> holds null under
  \<^verbatim>\<open>"gateway_ip"\<close> when \<^verbatim>\<open>GatewayIP\<close> points to the empty string, the string itself when
  it points to a non-empty one, and no such key when \<^verbatim>\<open>GatewayIP\<close> is nil; every other
  key has the value the marshalled struct gave it.
\<close>

theorem gateway_ip_empty_becomes_null:
  "(c_NetworkID copts \<noteq> [] \<longrightarrow>
      (\<exists>b. ToSubnetCreateMap copts = Returned (Inr b) \<and>
            subnet_key b ''gateway_ip'' = gateway_value (c_GatewayIP copts) \<and>
            (\<forall>k. k \<noteq> ''gateway_ip'' \<longrightarrow> subnet_key b k = map_of (CreateOpts_fields copts) k)))
   \<and> (\<exists>b. ToSubnetUpdateMap uopts = Returned (Inr b) \<and>
            subnet_key b ''gateway_ip'' = gateway_value (u_GatewayIP uopts) \<and>
            (\<forall>k. k \<noteq> ''gateway_ip'' \<longrightarrow> subnet_key b k = map_of (UpdateOpts_fields uopts) k))"
proof (intro conjI impI)
  assume "c_NetworkID copts \<noteq> []"
  then show "\<exists>b. ToSubnetCreateMap copts = Returned (Inr b) \<and>
            subnet_key b ''gateway_ip'' = gateway_value (c_GatewayIP copts) \<and>
            (\<forall>k. k \<noteq> ''gateway_ip'' \<longrightarrow> subnet_key b k = map_of (CreateOpts_fields copts) k)"
    using gateway_value_fields [OF CreateOpts_fields_gateway [of copts]]
    by (simp add: ToSubnetCreateMap_body subnet_key_rewritten)
next
  show "\<exists>b. ToSubnetUpdateMap uopts = Returned (Inr b) \<and>
            subnet_key b ''gateway_ip'' = gateway_value (u_GatewayIP uopts) \<and>
            (\<forall>k. k \<noteq> ''gateway_ip'' \<longrightarrow> subnet_key b k = map_of (UpdateOpts_fields uopts) k)"
    using gateway_value_fields [OF UpdateOpts_fields_gateway [of uopts]]
    by (simp add: ToSubnetUpdateMap_body subnet_key_rewritten)
qed

theorem gateway_ip_empty_becomes_null_witness:
  "c_NetworkID example_CreateOpts \<noteq> [] \<and>
   (\<exists>b. ToSubnetCreateMap example_CreateOpts = Returned (Inr b) \<and>
        subnet_key b ''gateway_ip'' = Some JNull \<and>
        subnet_key b ''cidr'' = Some (JString ''192.168.199.0/24'')) \<and>
   (\<exists>b. ToSubnetUpdateMap example_UpdateOpts = Returned (Inr b) \<and>
        subnet_key b ''gateway_ip'' = Some JNull \<and>
        subnet_key b ''name'' = Some (JString ''my_new_subnet''))"
proof -
  have n: "c_NetworkID example_CreateOpts \<noteq> []"
    by (simp add: example_CreateOpts_def)
  have c: "map_of (CreateOpts_fields example_CreateOpts) ''cidr'' = Some (JString ''192.168.199.0/24'')"
    by (simp add: example_CreateOpts_def CreateOpts_fields_def omit_string_def omit_int_def
        omit_ptr_def omit_slice_def)
  have u: "map_of (UpdateOpts_fields example_UpdateOpts) ''name'' = Some (JString ''my_new_subnet'')"
    by (simp add: example_UpdateOpts_def UpdateOpts_fields_def omit_ptr_def omit_slice_def)
  have gc: "gateway_value (c_GatewayIP example_CreateOpts) = Some JNull"
    by (simp add: example_CreateOpts_def gateway_value_def)
  have gu: "gateway_value (u_GatewayIP example_UpdateOpts) = Some JNull"
    by (simp add: example_UpdateOpts_def gateway_value_def)
  from gateway_ip_empty_becomes_null [of example_CreateOpts example_UpdateOpts] n
  show ?thesis
    unfolding gc gu c [symmetric] u [symmetric] by auto
qed

section \<open>Properties of authentication and client construction\<close>

subsection \<open>Field updates of a provider\<close>

lemma sel_set_TokenID [simp]:
  "IdentityBase (set_TokenID v p) = IdentityBase p"
  "IdentityEndpoint (set_TokenID v p) = IdentityEndpoint p"
  "TokenID (set_TokenID v p) = v"
  "authResult (set_TokenID v p) = authResult p"
  "ReauthFunc (set_TokenID v p) = ReauthFunc p"
  "EndpointLocator (set_TokenID v p) = EndpointLocator p"
  "Throwaway (set_TokenID v p) = Throwaway p"
  "TokenLock (set_TokenID v p) = TokenLock p"
  by (cases p; simp)+

lemma sel_set_authResult [simp]:
  "IdentityBase (set_authResult v p) = IdentityBase p"
  "IdentityEndpoint (set_authResult v p) = IdentityEndpoint p"
  "TokenID (set_authResult v p) = TokenID p"
  "authResult (set_authResult v p) = v"
  "ReauthFunc (set_authResult v p) = ReauthFunc p"
  "EndpointLocator (set_authResult v p) = EndpointLocator p"
  "Throwaway (set_authResult v p) = Throwaway p"
  "TokenLock (set_authResult v p) = TokenLock p"
  by (cases p; simp)+

lemma sel_set_ReauthFunc [simp]:
  "IdentityBase (set_ReauthFunc v p) = IdentityBase p"
  "IdentityEndpoint (set_ReauthFunc v p) = IdentityEndpoint p"
  "TokenID (set_ReauthFunc v p) = TokenID p"
  "authResult (set_ReauthFunc v p) = authResult p"
  "ReauthFunc (set_ReauthFunc v p) = v"
  "EndpointLocator (set_ReauthFunc v p) = EndpointLocator p"
  "Throwaway (set_ReauthFunc v p) = Throwaway p"
  "TokenLock (set_ReauthFunc v p) = TokenLock p"
  by (cases p; simp)+

lemma sel_set_EndpointLocator [simp]:
  "IdentityBase (set_EndpointLocator v p) = IdentityBase p"
  "IdentityEndpoint (set_EndpointLocator v p) = IdentityEndpoint p"
  "TokenID (set_EndpointLocator v p) = TokenID p"
  "authResult (set_EndpointLocator v p) = authResult p"
  "ReauthFunc (set_EndpointLocator v p) = ReauthFunc p"
  "EndpointLocator (set_EndpointLocator v p) = v"
  "Throwaway (set_EndpointLocator v p) = Throwaway p"
  "TokenLock (set_EndpointLocator v p) = TokenLock p"
  by (cases p; simp)+

lemma sel_set_Throwaway [simp]:
  "IdentityBase (set_Throwaway v p) = IdentityBase p"
  "IdentityEndpoint (set_Throwaway v p) = IdentityEndpoint p"
  "TokenID (set_Throwaway v p) = TokenID p"
  "authResult (set_Throwaway v p) = authResult p"
  "ReauthFunc (set_Throwaway v p) = ReauthFunc p"
  "EndpointLocator (set_Throwaway v p) = EndpointLocator p"
  "Throwaway (set_Throwaway v p) = v"
  "TokenLock (set_Throwaway v p) = TokenLock p"
  by (cases p; simp)+

lemma SetTokenAndAuthResult_Inr:
  "SetTokenAndAuthResult p (Some r) = Inr p' \<Longrightarrow>
     ExtractTokenID r = Inr (TokenID p') \<and> authResult p' = Some r \<and>
     p' = set_authResult (Some r) (set_TokenID (TokenID p') p)"
  by (auto simp: SetTokenAndAuthResult_def split: sum.splits)

subsection \<open>Token pass-through with reauthentication\<close>

lemma NewIdentityV3_no_request:
  "\<forall>ev \<in> set (snd (NewIdentityV3 E client eo)). \<not> is_request ev"
  by (simp add: NewIdentityV3_def Let_def split: outcome.splits sum.splits)

lemma v3auth_rejected:
  assumes "tokenID_of opts \<noteq> []" "passthroughToken opts" "CanReauth opts"
  shows "v3auth E client endpoint opts eo =
     (case NewIdentityV3 E client eo of
        (Panic r, tr) \<Rightarrow> (Panic r, client, tr)
      | (Returned (Inl err), tr) \<Rightarrow> (Returned (Some err), client, tr)
      | (Returned (Inr sc), tr) \<Rightarrow> (Returned (Some ErrReauthWithToken), client, tr))"
  using assms
  by (simp add: v3auth_def v3auth_passthrough_def Let_def split: prod.splits outcome.splits sum.splits)

text \<open>
  C1 (as amended). Let the options carry a non-empty token ID and no scope, and let
  them report \<^verbatim>\<open>CanReauth() == true\<close>. Whenever the identity service client is built
  (\<^verbatim>\<open>NewIdentityV3\<close> returns no error), \<^verbatim>\<open>v3auth\<close> returns the misuse error, having done
  nothing but what \<^verbatim>\<open>NewIdentityV3\<close> did. In every case \<^verbatim>\<open>v3auth\<close> does not succeed, leaves
  the provider as it was, and issues no request: neither the token lookup nor any other.
\<close>

theorem v3auth_passthrough_reauth_rejected:
  assumes "tokenID_of opts \<noteq> []" and "passthroughToken opts" and "CanReauth opts"
  shows "(\<forall>sc tr. NewIdentityV3 E client eo = (Returned (Inr sc), tr) \<longrightarrow>
            v3auth E client endpoint opts eo = (Returned (Some ErrReauthWithToken), client, tr))
       \<and> fst (v3auth E client endpoint opts eo) \<noteq> Returned None
       \<and> fst (snd (v3auth E client endpoint opts eo)) = client
       \<and> (\<forall>ev \<in> set (snd (snd (v3auth E client endpoint opts eo))). \<not> is_request ev)"
proof -
  note r = v3auth_rejected [OF assms, of E client endpoint eo]
  have tr: "snd (snd (v3auth E client endpoint opts eo)) = snd (NewIdentityV3 E client eo)"
    unfolding r by (simp split: prod.splits outcome.splits sum.splits)
  show ?thesis
    unfolding tr using NewIdentityV3_no_request [of E client eo]
    unfolding r by (simp split: prod.splits outcome.splits sum.splits)
qed

text \<open>The amended C1 at a concrete call.\<close>

theorem v3auth_passthrough_reauth_rejected_witness:
  "tokenID_of (GopherAuthOptions token_reauth_options) \<noteq> [] \<and>
   passthroughToken (GopherAuthOptions token_reauth_options) \<and>
   CanReauth (GopherAuthOptions token_reauth_options) \<and>
   v3auth example_env example_provider [] (GopherAuthOptions token_reauth_options) zero_EndpointOpts
     = (Returned (Some ErrReauthWithToken), example_provider, [])"
proof -
  have a: "tokenID_of (GopherAuthOptions token_reauth_options) \<noteq> []"
    by (simp add: token_reauth_options_def)
  have b: "passthroughToken (GopherAuthOptions token_reauth_options)"
    by (simp add: token_reauth_options_def)
  have c: "CanReauth (GopherAuthOptions token_reauth_options)"
    by (simp add: token_reauth_options_def)
  obtain sc where n: "NewIdentityV3 example_env example_provider zero_EndpointOpts = (Returned (Inr sc), [])"
    by (simp add: NewIdentityV3_def NewIdentityV3_finish_def example_env_def)
  from v3auth_passthrough_reauth_rejected [OF a b c, of example_env example_provider
      zero_EndpointOpts "[]"] n a b c
  show ?thesis by blast
qed

text \<open>
  The unamended C1 fails: \<^verbatim>\<open>v3auth\<close> builds the identity client first (lines 179 to 182)
  and returns its error. Here \<^verbatim>\<open>AuthenticateV3\<close> is given a region, and the provider's
  endpoint locator finds no identity endpoint in its catalog.
\<close>

theorem v3auth_misuse_counterexample:
  "tokenID_of (GopherAuthOptions token_reauth_options) \<noteq> [] \<and>
   passthroughToken (GopherAuthOptions token_reauth_options) \<and>
   CanReauth (GopherAuthOptions token_reauth_options) \<and>
   fst (v3auth example_env stale_provider [] (GopherAuthOptions token_reauth_options) region_opts)
     = Returned (Some (ErrOther ''no endpoint'')) \<and>
   fst (v3auth example_env stale_provider [] (GopherAuthOptions token_reauth_options) region_opts)
     \<noteq> Returned (Some ErrReauthWithToken)"
  by code_simp

subsection \<open>The reauthentication closure\<close>

lemma throwaway_opts_known:
  "CanReauth (throwaway_opts opts) \<Longrightarrow> \<exists>n. opts = CustomBuilder n True"
  by (cases opts) auto

lemma v3auth_install_closure:
  assumes "v3auth_install client endpoint opts eo catalog tr = (Returned None, client', tr')"
    and "CanReauth opts"
  shows "\<exists>tac. ReauthFunc client' = Some (ReauthV3 tac endpoint (throwaway_opts opts) eo) \<and>
           ReauthFunc tac = None \<and> Throwaway tac \<and> TokenID tac = [] \<and> authResult tac = None"
  using assms
  by (auto simp: v3auth_install_def Let_def SetTokenAndAuthResult_def SetThrowaway_def)

lemma v2auth_install_closure:
  assumes "v2auth_install client endpoint options eo catalog tr = (Returned None, client', tr')"
    and "CanReauthV2 options"
  shows "\<exists>tac. ReauthFunc client' = Some (ReauthV2 tac endpoint (v2TokenNoReauth options) eo) \<and>
           ReauthFunc tac = None \<and> Throwaway tac \<and> \<not> CanReauthV2 (v2TokenNoReauth options)"
  using assms
  by (auto simp: v2auth_install_def Let_def SetTokenAndAuthResult_def SetThrowaway_def)

text \<open>
  C2 fails on the code. For an options value of a type other than the four named in the
  type switch of lines 257 to 276, the \<^verbatim>\<open>default\<close> branch hands the options to the closure
  unchanged: the closure's options still report \<^verbatim>\<open>CanReauth() == true\<close>, and the first
  invocation of the closure installs a reauthentication closure on the throw-away
  client, which is therefore no longer a provider whose \<^verbatim>\<open>ReauthFunc\<close> is nil.
\<close>

theorem v3auth_custom_builder_keeps_reauth:
  "(case v3auth example_env example_provider [] wrapped_options zero_EndpointOpts of
      (res, client', tr) \<Rightarrow>
        res = Returned None \<and>
        (case ReauthFunc client' of
           Some (ReauthV3 tac endpoint tao eo) \<Rightarrow> tao = wrapped_options \<and> CanReauth tao \<and> ReauthFunc tac = None
         | _ \<Rightarrow> False) \<and>
        (case call_ReauthFunc example_env client' of
           (res2, client2, tr2) \<Rightarrow>
             res2 = Returned None \<and>
             (case ReauthFunc client2 of
                Some f \<Rightarrow> ReauthFunc (reauth_tac f) \<noteq> None
              | None \<Rightarrow> False)))"
  by code_simp

text \<open>
  C3. An invocation of the installed closure returns what the inner authentication on
  the throw-away client returns and does nothing else besides. When that is not
  success, the token and the authentication result of the provider are what they
  were; on success they are those of the throw-away client.
\<close>

theorem reauth_failure_keeps_token:
  assumes "ReauthFunc client = Some f" and "reauth_inner E f = (res, tac', tr)"
  shows "fst (call_ReauthFunc E client) = res
       \<and> snd (snd (call_ReauthFunc E client)) = tr
       \<and> (res \<noteq> Returned None \<longrightarrow>
            TokenID (fst (snd (call_ReauthFunc E client))) = TokenID client \<and>
            authResult (fst (snd (call_ReauthFunc E client))) = authResult client)
       \<and> (res = Returned None \<longrightarrow>
            TokenID (fst (snd (call_ReauthFunc E client))) = TokenID tac' \<and>
            authResult (fst (snd (call_ReauthFunc E client))) = authResult tac')"
  using assms
  by (auto simp: call_ReauthFunc_def CopyTokenFrom_def split: outcome.splits option.splits)

theorem reauth_failure_keeps_token_witness:
  "ReauthFunc stale_provider = Some (ReauthV3 example_provider []
      (GopherAuthOptions (password_options\<lparr>ao_AllowReauth := False\<rparr>)) zero_EndpointOpts) \<and>
   fst (call_ReauthFunc rejecting_env stale_provider) = Returned (Some (ErrOther ''401 Unauthorized'')) \<and>
   TokenID (fst (snd (call_ReauthFunc rejecting_env stale_provider))) = ''gAAAAABi'' \<and>
   authResult (fst (snd (call_ReauthFunc rejecting_env stale_provider))) = Some example_result"
proof -
  let ?f = "ReauthV3 example_provider []
      (GopherAuthOptions (password_options\<lparr>ao_AllowReauth := False\<rparr>)) zero_EndpointOpts"
  have r: "ReauthFunc stale_provider = Some ?f"
    by (simp add: stale_provider_def)
  have "fst (reauth_inner rejecting_env ?f) = Returned (Some (ErrOther ''401 Unauthorized''))"
    by code_simp
  then obtain tac' tr where
    i: "reauth_inner rejecting_env ?f = (Returned (Some (ErrOther ''401 Unauthorized'')), tac', tr)"
    by (cases "reauth_inner rejecting_env ?f") auto
  have t: "TokenID stale_provider = ''gAAAAABi''" "authResult stale_provider = Some example_result"
    by (simp_all add: stale_provider_def)
  from reauth_failure_keeps_token [OF r i] r t
  show ?thesis by simp
qed

subsection \<open>Version negotiation\<close>

lemma Authenticate_unrecognized:
  "ChooseVersion E client versions = Inr (chosen, endpoint) \<Longrightarrow>
   v_ID chosen \<noteq> v2 \<Longrightarrow> v_ID chosen \<noteq> v3 \<Longrightarrow>
   Authenticate E client options =
     (Returned (Some (ErrUnrecognizedVersion (v_ID chosen))), client, [CallChooseVersion])"
  by (simp add: Authenticate_def)



lemma v2auth_install_trace:
  "snd (snd (v2auth_install client endpoint opts eo catalog tr)) = tr"
  by (simp add: v2auth_install_def Let_def split: sum.splits)







subsection \<open>Fresh credential exchange\<close>

lemma v3auth_install_success:
  assumes "v3auth_install client1 endpoint opts eo catalog tr = (Returned None, client', tr')"
  shows "TokenID client' = TokenID client1 \<and> authResult client' = authResult client1 \<and>
         EndpointLocator client' = Some (V3Locator catalog)"
  using assms by (auto simp: v3auth_install_def Let_def split: if_splits sum.splits)

lemma v2auth_install_success:
  assumes "v2auth_install client1 endpoint opts eo catalog tr = (Returned None, client', tr')"
  shows "TokenID client' = TokenID client1 \<and> authResult client' = authResult client1 \<and>
         EndpointLocator client' = Some (V2Locator catalog)"
  using assms by (auto simp: v2auth_install_def Let_def split: if_splits sum.splits)

lemma v3auth_create_success:
  assumes "v3auth_create E client sc endpoint opts eo tr = (Returned None, client', tr')"
  shows "\<exists>tokenID catalog client1.
           ExtractTokenID (fst (create_token E sc opts)) = Inr tokenID \<and>
           ExtractServiceCatalog (fst (create_token E sc opts)) = Inr catalog \<and>
           SetTokenAndAuthResult client (Some (fst (create_token E sc opts))) = Inr client1 \<and>
           TokenID client' = TokenID client1 \<and> authResult client' = authResult client1 \<and>
           TokenID client' = tokenID \<and> authResult client' = Some (fst (create_token E sc opts)) \<and>
           EndpointLocator client' = Some (V3Locator catalog)"
proof -
  let ?r = "fst (create_token E sc opts)"
  obtain client1 where s: "SetTokenAndAuthResult client (Some ?r) = Inr client1"
    using assms by (auto simp: v3auth_create_def Let_def split: prod.splits sum.splits)
  obtain catalog where c: "ExtractServiceCatalog ?r = Inr catalog"
    using assms s by (auto simp: v3auth_create_def Let_def split: prod.splits sum.splits)
  have i: "v3auth_install client1 endpoint opts eo catalog (tr @ [snd (create_token E sc opts)])
             = (Returned None, client', tr')"
    using assms s c by (auto simp: v3auth_create_def Let_def split: prod.splits sum.splits)
  from SetTokenAndAuthResult_Inr [OF s] v3auth_install_success [OF i] s c
  show ?thesis by auto
qed

text \<open>
  C5. When \<^verbatim>\<open>v3auth\<close> succeeds outside the pass-through branch, or \<^verbatim>\<open>v2auth\<close> succeeds,
  the provider holds the token of the response to the one token request and the
  response itself, as \<^verbatim>\<open>SetTokenAndAuthResult\<close> stored them, and its endpoint locator
  searches the catalog extracted from that same response.
\<close>

theorem fresh_exchange_stores_token_and_catalog:
  "(\<not> (tokenID_of opts \<noteq> [] \<and> passthroughToken opts) \<and>
    v3auth E client endpoint opts eo = (Returned None, client', tr) \<longrightarrow>
      (\<exists>sc result tokenID catalog client1.
         fst (NewIdentityV3 E client eo) = Returned (Inr sc) \<and>
         result = fst (create_token E (if endpoint \<noteq> [] then sc\<lparr>sc_Endpoint := endpoint\<rparr> else sc) opts) \<and>
         ExtractTokenID result = Inr tokenID \<and>
         ExtractServiceCatalog result = Inr catalog \<and>
         SetTokenAndAuthResult client (Some result) = Inr client1 \<and>
         TokenID client' = TokenID client1 \<and> authResult client' = authResult client1 \<and>
         TokenID client' = tokenID \<and> authResult client' = Some result \<and>
         EndpointLocator client' = Some (V3Locator catalog)))
   \<and> (v2auth E client endpoint options eo = (Returned None, client'', tr'') \<longrightarrow>
      (\<exists>sc result tokenID catalog client1.
         fst (NewIdentityV2 E client eo) = Returned (Inr sc) \<and>
         result = tokens2_Create E (if endpoint \<noteq> [] then sc\<lparr>sc_Endpoint := endpoint\<rparr> else sc) options \<and>
         ExtractTokenID result = Inr tokenID \<and>
         ExtractServiceCatalog result = Inr catalog \<and>
         SetTokenAndAuthResult client (Some result) = Inr client1 \<and>
         TokenID client'' = TokenID client1 \<and> authResult client'' = authResult client1 \<and>
         TokenID client'' = tokenID \<and> authResult client'' = Some result \<and>
         EndpointLocator client'' = Some (V2Locator catalog)))"
proof (intro conjI impI)
  assume a: "\<not> (tokenID_of opts \<noteq> [] \<and> passthroughToken opts) \<and>
    v3auth E client endpoint opts eo = (Returned None, client', tr)"
  obtain r tr0 where n: "NewIdentityV3 E client eo = (r, tr0)"
    by (cases "NewIdentityV3 E client eo") auto
  from a n obtain sc where r: "r = Returned (Inr sc)"
    by (auto simp: v3auth_def split: outcome.splits sum.splits)
  let ?sc = "if endpoint \<noteq> [] then sc\<lparr>sc_Endpoint := endpoint\<rparr> else sc"
  have "v3auth_create E client ?sc endpoint opts eo tr0 = (Returned None, client', tr)"
    using a n r by (auto simp: v3auth_def Let_def)
  from v3auth_create_success [OF this] n r
  show "\<exists>sc result tokenID catalog client1.
         fst (NewIdentityV3 E client eo) = Returned (Inr sc) \<and>
         result = fst (create_token E (if endpoint \<noteq> [] then sc\<lparr>sc_Endpoint := endpoint\<rparr> else sc) opts) \<and>
         ExtractTokenID result = Inr tokenID \<and>
         ExtractServiceCatalog result = Inr catalog \<and>
         SetTokenAndAuthResult client (Some result) = Inr client1 \<and>
         TokenID client' = TokenID client1 \<and> authResult client' = authResult client1 \<and>
         TokenID client' = tokenID \<and> authResult client' = Some result \<and>
         EndpointLocator client' = Some (V3Locator catalog)"
    by fastforce
next
  assume a: "v2auth E client endpoint options eo = (Returned None, client'', tr'')"
  obtain r tr0 where n: "NewIdentityV2 E client eo = (r, tr0)"
    by (cases "NewIdentityV2 E client eo") auto
  from a n obtain sc where r: "r = Returned (Inr sc)"
    by (auto simp: v2auth_def split: outcome.splits sum.splits)
  let ?sc = "if endpoint \<noteq> [] then sc\<lparr>sc_Endpoint := endpoint\<rparr> else sc"
  let ?r = "tokens2_Create E ?sc options"
  obtain client1 where s: "SetTokenAndAuthResult client (Some ?r) = Inr client1"
    using a n r by (auto simp: v2auth_def Let_def split: sum.splits)
  obtain catalog where c: "ExtractServiceCatalog ?r = Inr catalog"
    using a n r s by (auto simp: v2auth_def Let_def split: sum.splits)
  have i: "v2auth_install client1 endpoint options eo catalog
             (tr0 @ [RequestTokens2Create (sc_Endpoint ?sc)]) = (Returned None, client'', tr'')"
    using a n r s c by (auto simp: v2auth_def Let_def split: sum.splits)
  from SetTokenAndAuthResult_Inr [OF s] v2auth_install_success [OF i] s c n r
  show "\<exists>sc result tokenID catalog client1.
         fst (NewIdentityV2 E client eo) = Returned (Inr sc) \<and>
         result = tokens2_Create E (if endpoint \<noteq> [] then sc\<lparr>sc_Endpoint := endpoint\<rparr> else sc) options \<and>
         ExtractTokenID result = Inr tokenID \<and>
         ExtractServiceCatalog result = Inr catalog \<and>
         SetTokenAndAuthResult client (Some result) = Inr client1 \<and>
         TokenID client'' = TokenID client1 \<and> authResult client'' = authResult client1 \<and>
         TokenID client'' = tokenID \<and> authResult client'' = Some result \<and>
         EndpointLocator client'' = Some (V2Locator catalog)"
    by fastforce
qed

theorem fresh_exchange_stores_token_and_catalog_witness:
  "\<not> (tokenID_of (GopherAuthOptions password_options) \<noteq> [] \<and>
       passthroughToken (GopherAuthOptions password_options)) \<and>
   fst (v3auth example_env example_provider [] (GopherAuthOptions password_options) zero_EndpointOpts)
     = Returned None \<and>
   TokenID (fst (snd (v3auth example_env example_provider [] (GopherAuthOptions password_options)
       zero_EndpointOpts))) = ''gAAAAABk'' \<and>
   fst (v2auth example_env example_provider [] (V2AuthOptions password_options) zero_EndpointOpts)
     = Returned None \<and>
   TokenID (fst (snd (v2auth example_env example_provider [] (V2AuthOptions password_options)
       zero_EndpointOpts))) = ''gAAAAABk''"
proof -
  have f3: "fst (v3auth example_env example_provider [] (GopherAuthOptions password_options)
       zero_EndpointOpts) = Returned None"
    by code_simp
  have f2: "fst (v2auth example_env example_provider [] (V2AuthOptions password_options)
       zero_EndpointOpts) = Returned None"
    by code_simp
  obtain c3 t3 where v3: "v3auth example_env example_provider [] (GopherAuthOptions password_options)
       zero_EndpointOpts = (Returned None, c3, t3)"
    using f3 by (cases "v3auth example_env example_provider [] (GopherAuthOptions password_options)
       zero_EndpointOpts") auto
  obtain c2 t2 where v2: "v2auth example_env example_provider [] (V2AuthOptions password_options)
       zero_EndpointOpts = (Returned None, c2, t2)"
    using f2 by (cases "v2auth example_env example_provider [] (V2AuthOptions password_options)
       zero_EndpointOpts") auto
  have p: "\<not> (tokenID_of (GopherAuthOptions password_options) \<noteq> [] \<and>
       passthroughToken (GopherAuthOptions password_options))"
    by (simp add: password_options_def)
  have e: "ExtractTokenID example_result = Inr ''gAAAAABk''"
    by (simp add: example_result_def)
  have t: "\<And>sc. fst (create_token example_env sc (GopherAuthOptions password_options)) = example_result"
    "\<And>sc. tokens2_Create example_env sc (V2AuthOptions password_options) = example_result"
    by (simp_all add: example_env_def)
  from fresh_exchange_stores_token_and_catalog [of "GopherAuthOptions password_options" example_env
      example_provider "[]" zero_EndpointOpts c3 t3 "V2AuthOptions password_options" c2 t2] v3 v2 p e t
  show ?thesis by auto
qed

subsection \<open>Service client constructors\<close>

lemma ApplyDefaults_Version: "eo_Version (ApplyDefaults t eo) = eo_Version eo"
  by (simp add: ApplyDefaults_def Let_def)

lemma initClientOpts_conflict:
  "eo_Version eo \<noteq> 0 \<Longrightarrow> eo_Version eo \<noteq> version \<Longrightarrow>
   initClientOpts E client eo t version = (Returned (Some zero_ServiceClient, Some ErrVersionConflict), [])"
  by (simp add: initClientOpts_def Let_def ApplyDefaults_Version)

lemma initClientOpts_cases:
  "(\<exists>r tr. initClientOpts E client eo t version = (Panic r, tr) \<and> r = NilFunctionCall)
   \<or> (\<exists>err tr. initClientOpts E client eo t version = (Returned (Some zero_ServiceClient, Some err), tr))
   \<or> (\<exists>url tr. initClientOpts E client eo t version =
         (Returned (Some (zero_ServiceClient\<lparr>sc_ProviderClient := Some client, sc_Endpoint := url,
                                              sc_Type := t\<rparr>), None), tr))"
  by (auto simp: initClientOpts_def Let_def call_EndpointLocator_def
      split: outcome.splits sum.splits option.splits locator.splits)

text \<open>
  C7. Every constructor built on \<^verbatim>\<open>initClientOpts\<close>, given endpoint options whose version
  is neither zero nor the constructor's own, returns the version-conflict error
  without any call of the endpoint locator. \<^verbatim>\<open>Authenticate\<close>, when the chosen version is
  neither v2.0 nor v3, returns the unrecognized-version error; the provider is as it
  was and nothing happened after version negotiation.
\<close>

theorem configuration_errors_fail_fast:
  "(\<forall>(version, new) \<in> set (constructors clientID).
      eo_Version eo \<noteq> 0 \<and> eo_Version eo \<noteq> version \<longrightarrow>
        (\<exists>sc. new E client eo = (Returned (Some sc, Some ErrVersionConflict), [])))
   \<and> (\<forall>chosen endpoint.
        ChooseVersion E client versions = Inr (chosen, endpoint) \<and>
        v_ID chosen \<noteq> v2 \<and> v_ID chosen \<noteq> v3 \<longrightarrow>
          Authenticate E client options =
            (Returned (Some (ErrUnrecognizedVersion (v_ID chosen))), client, [CallChooseVersion]))"
proof (intro conjI)
  show "\<forall>(version, new) \<in> set (constructors clientID).
      eo_Version eo \<noteq> 0 \<and> eo_Version eo \<noteq> version \<longrightarrow>
        (\<exists>sc. new E client eo = (Returned (Some sc, Some ErrVersionConflict), []))"
    by (simp add: constructors_def initClientOpts_conflict
        NewBareMetalV1_def NewBareMetalIntrospectionV1_def NewObjectStorageV1_def
        NewComputeV2_def NewNetworkV2_def NewBlockStorageV1_def NewBlockStorageV2_def
        NewBlockStorageV3_def NewSharedFileSystemV2_def NewOrchestrationV1_def NewDBV1_def
        NewDNSV2_def NewImageV2_def NewLoadBalancerV2_def NewMessagingV2_def NewContainerV1_def
        NewKeyManagerV1_def NewContainerInfraV1_def NewWorkflowV2_def NewPlacementV1_def)
next
  show "\<forall>chosen endpoint.
        ChooseVersion E client versions = Inr (chosen, endpoint) \<and>
        v_ID chosen \<noteq> v2 \<and> v_ID chosen \<noteq> v3 \<longrightarrow>
          Authenticate E client options =
            (Returned (Some (ErrUnrecognizedVersion (v_ID chosen))), client, [CallChooseVersion])"
    by (simp add: Authenticate_unrecognized)
qed

theorem configuration_errors_fail_fast_witness:
  "(2, NewNetworkV2) \<in> set (constructors ''c1'') \<and>
   eo_Version conflicting_opts \<noteq> 0 \<and> eo_Version conflicting_opts \<noteq> 2 \<and>
   (\<exists>sc. NewNetworkV2 example_env example_provider conflicting_opts
           = (Returned (Some sc, Some ErrVersionConflict), []))"
proof -
  have m: "(2, NewNetworkV2) \<in> set (constructors ''c1'')"
    by (simp add: constructors_def)
  have v: "eo_Version conflicting_opts \<noteq> 0 \<and> eo_Version conflicting_opts \<noteq> 2"
    by (simp add: conflicting_opts_def zero_EndpointOpts_def)
  from configuration_errors_fail_fast [of "''c1''" conflicting_opts example_env example_provider] m v
  show ?thesis by blast
qed

text \<open>
  C10. \<^verbatim>\<open>initClientOpts\<close> never returns a nil client, and on an error the client is the
  zero value. \<^verbatim>\<open>NewNetworkV2\<close> and \<^verbatim>\<open>NewBareMetalV1\<close> therefore never dereference nil; when
  they return an error, the client they return is the zero value with \<^verbatim>\<open>ResourceBase\<close>
  computed from the empty endpoint: \<^verbatim>\<open>"v2.0/"\<close> and \<^verbatim>\<open>"v1/"\<close>.
\<close>

theorem initClientOpts_never_nil:
  "(\<forall>sc err. fst (initClientOpts E client eo t version) = Returned (sc, err) \<longrightarrow>
       sc \<noteq> None \<and> (err \<noteq> None \<longrightarrow> sc = Some zero_ServiceClient))
   \<and> fst (NewNetworkV2 E client eo) \<noteq> Panic NilPointerDereference
   \<and> fst (NewBareMetalV1 E client eo) \<noteq> Panic NilPointerDereference
   \<and> (\<forall>sc err. fst (NewNetworkV2 E client eo) = Returned (sc, Some err) \<longrightarrow>
         sc = Some (zero_ServiceClient\<lparr>sc_ResourceBase := ''v2.0/''\<rparr>))
   \<and> (\<forall>sc err. fst (NewBareMetalV1 E client eo) = Returned (sc, Some err) \<longrightarrow>
         sc = Some (zero_ServiceClient\<lparr>sc_ResourceBase := ''v1/''\<rparr>))"
proof -
  have z: "sc_Endpoint zero_ServiceClient = []"
    by (simp add: zero_ServiceClient_def)
  have s: "\<not> HasSuffix (TrimSuffix [] ''/'') ''v1''"
    by (simp add: HasSuffix_def TrimSuffix_def)
  show ?thesis
    using initClientOpts_cases [of E client eo t version]
      initClientOpts_cases [of E client eo "''network''" 2]
      initClientOpts_cases [of E client eo "''baremetal''" 1]
    by (auto simp: NewNetworkV2_def NewBareMetalV1_def z s)
qed

theorem initClientOpts_never_nil_witness:
  "fst (NewNetworkV2 example_env example_provider conflicting_opts)
     = Returned (Some (zero_ServiceClient\<lparr>sc_ResourceBase := ''v2.0/''\<rparr>), Some ErrVersionConflict)"
proof -
  have v: "eo_Version conflicting_opts \<noteq> 0" "eo_Version conflicting_opts \<noteq> 2"
    by (simp_all add: conflicting_opts_def zero_EndpointOpts_def)
  obtain sc where n: "fst (NewNetworkV2 example_env example_provider conflicting_opts)
     = Returned (sc, Some ErrVersionConflict)"
    by (simp add: NewNetworkV2_def initClientOpts_conflict [OF v])
  from initClientOpts_never_nil [of example_env example_provider conflicting_opts "''network''" 2] n
  show ?thesis by simp
qed

end
